theory Spec2Isabelle
  imports Main
begin

section \<open>Python values and exceptions\<close>

text \<open>
  The inventory script is dynamically typed: items and quantities are arbitrary Python
  objects. The model covers \<open>None\<close>, integers (unbounded), strings, lists and dicts.
  Floating point numbers and booleans are not part of the model.
\<close>

datatype pyval =
    VNone
  | VInt int
  | VStr string
  | VList "pyval list"
  | VDict "(pyval \<times> pyval) list"

text \<open>A dict is kept as its list of items in insertion order.\<close>

type_synonym dict = "(pyval \<times> pyval) list"

text \<open>The exception classes that the script and the calls it makes can raise.\<close>

datatype exn =
    TypeError
  | KeyError
  | FileNotFoundError
  | PermissionError
  | JSONDecodeError
  | UnicodeDecodeError
  | RecursionError

text \<open>Lists and dicts define no hash; using one as a dict key raises \<open>TypeError\<close>.\<close>

fun hashable :: "pyval \<Rightarrow> bool" where
  "hashable (VList _) = False"
| "hashable (VDict _) = False"
| "hashable _ = True"

subsection \<open>Equality, arithmetic and ordering\<close>

text \<open>
  \<open>==\<close> is structural on everything but dicts, which are equal when they hold the same
  items whatever the order.
\<close>

fun py_eq :: "pyval \<Rightarrow> pyval \<Rightarrow> bool"
  and py_eq_list :: "pyval list \<Rightarrow> pyval list \<Rightarrow> bool"
  and py_eq_items :: "(pyval \<times> pyval) list \<Rightarrow> (pyval \<times> pyval) list \<Rightarrow> bool"
where
  "py_eq VNone VNone = True"
| "py_eq (VInt a) (VInt b) = (a = b)"
| "py_eq (VStr a) (VStr b) = (a = b)"
| "py_eq (VList xs) (VList ys) = py_eq_list xs ys"
| "py_eq (VDict a) (VDict b) = (length a = length b \<and> py_eq_items a b)"
| "py_eq _ _ = False"
| "py_eq_list [] [] = True"
| "py_eq_list (x # xs) (y # ys) = (py_eq x y \<and> py_eq_list xs ys)"
| "py_eq_list _ _ = False"
| "py_eq_items [] b = True"
| "py_eq_items ((k, v) # a) b =
     (case map_of b k of None \<Rightarrow> False | Some v' \<Rightarrow> py_eq v v' \<and> py_eq_items a b)"

text \<open>
  \<open>a + b\<close> on the values of the model: integer addition, string and list
  concatenation; every other pair of them raises \<open>TypeError\<close>.
\<close>

fun py_add :: "pyval \<Rightarrow> pyval \<Rightarrow> exn + pyval" where
  "py_add (VInt a) (VInt b) = Inr (VInt (a + b))"
| "py_add (VStr a) (VStr b) = Inr (VStr (a @ b))"
| "py_add (VList a) (VList b) = Inr (VList (a @ b))"
| "py_add _ _ = Inl TypeError"

text \<open>\<open>a - b\<close>: among the values of the model, defined on integers only.\<close>

fun py_sub :: "pyval \<Rightarrow> pyval \<Rightarrow> exn + pyval" where
  "py_sub (VInt a) (VInt b) = Inr (VInt (a - b))"
| "py_sub _ _ = Inl TypeError"

text \<open>Strings are ordered lexicographically by code point.\<close>

fun str_lt :: "string \<Rightarrow> string \<Rightarrow> bool" where
  "str_lt [] [] = False"
| "str_lt [] (d # t) = True"
| "str_lt (c # s) [] = False"
| "str_lt (c # s) (d # t) =
     (if c = d then str_lt s t else (of_char c :: nat) < of_char d)"

text \<open>
  \<open>a < b\<close>: integers by value, strings and lists lexicographically. Lists are compared
  at the first position where their elements differ by \<open>==\<close>; the elements there are
  compared by \<open>\<close>\<open><\<close>, which may raise. Every other pair of types raises \<open>TypeError\<close>.
\<close>

fun py_lt :: "pyval \<Rightarrow> pyval \<Rightarrow> exn + bool"
  and list_lt :: "pyval list \<Rightarrow> pyval list \<Rightarrow> exn + bool"
where
  "py_lt (VInt a) (VInt b) = Inr (a < b)"
| "py_lt (VStr a) (VStr b) = Inr (str_lt a b)"
| "py_lt (VList xs) (VList ys) = list_lt xs ys"
| "py_lt _ _ = Inl TypeError"
| "list_lt [] [] = Inr False"
| "list_lt [] (y # ys) = Inr True"
| "list_lt (x # xs) [] = Inr False"
| "list_lt (x # xs) (y # ys) = (if py_eq x y then list_lt xs ys else py_lt x y)"

text \<open>\<open>a <= b\<close>, in the same way.\<close>

fun py_le :: "pyval \<Rightarrow> pyval \<Rightarrow> exn + bool"
  and list_le :: "pyval list \<Rightarrow> pyval list \<Rightarrow> exn + bool"
where
  "py_le (VInt a) (VInt b) = Inr (a \<le> b)"
| "py_le (VStr a) (VStr b) = Inr (\<not> str_lt b a)"
| "py_le (VList xs) (VList ys) = list_le xs ys"
| "py_le _ _ = Inl TypeError"
| "list_le [] ys = Inr True"
| "list_le (x # xs) [] = Inr False"
| "list_le (x # xs) (y # ys) = (if py_eq x y then list_le xs ys else py_le x y)"

subsection \<open>Dict operations\<close>

text \<open>\<open>data.get(k, dflt)\<close>\<close>

definition dict_get :: "dict \<Rightarrow> pyval \<Rightarrow> pyval \<Rightarrow> exn + pyval" where
  "dict_get d k dflt =
     (if \<not> hashable k then Inl TypeError
      else Inr (case map_of d k of None \<Rightarrow> dflt | Some v \<Rightarrow> v))"

text \<open>\<open>k in data\<close>\<close>

definition dict_contains :: "dict \<Rightarrow> pyval \<Rightarrow> exn + bool" where
  "dict_contains d k =
     (if \<not> hashable k then Inl TypeError else Inr (map_of d k \<noteq> None))"

text \<open>\<open>data[k]\<close>\<close>

definition dict_getitem :: "dict \<Rightarrow> pyval \<Rightarrow> exn + pyval" where
  "dict_getitem d k =
     (if \<not> hashable k then Inl TypeError
      else case map_of d k of None \<Rightarrow> Inl KeyError | Some v \<Rightarrow> Inr v)"

text \<open>
  \<open>data[k] = v\<close>: a key already present keeps its position, a new key goes last.
\<close>

fun store :: "dict \<Rightarrow> pyval \<Rightarrow> pyval \<Rightarrow> dict" where
  "store [] k v = [(k, v)]"
| "store ((k', v') # d) k v = (if k' = k then (k', v) # d else (k', v') # store d k v)"

definition dict_setitem :: "dict \<Rightarrow> pyval \<Rightarrow> pyval \<Rightarrow> exn + dict" where
  "dict_setitem d k v = (if \<not> hashable k then Inl TypeError else Inr (store d k v))"

text \<open>\<open>del data[k]\<close>\<close>

definition dict_delitem :: "dict \<Rightarrow> pyval \<Rightarrow> exn + dict" where
  "dict_delitem d k =
     (if \<not> hashable k then Inl TypeError
      else if map_of d k = None then Inl KeyError
      else Inr (filter (\<lambda>kv. fst kv \<noteq> k) d))"

text \<open>
  A dict object has hashable, pairwise different keys; every dict the interpreter builds
  is of this form.
\<close>

definition wf_dict :: "dict \<Rightarrow> bool" where
  "wf_dict d = (distinct (map fst d) \<and> list_all hashable (map fst d))"

section \<open>The environment: log output, standard output, files\<close>

datatype level = INFO | WARNING | ERROR

text \<open>
  A call \<open>logging.info(fmt, args)\<close> is recorded with its level, format string and
  arguments. The root logger is configured at level \<open>INFO\<close>, so the three levels the
  script uses are all emitted.
\<close>

type_synonym log_record = "level \<times> string \<times> pyval list"

text \<open>An f-string before rendering: literal text and formatted values.\<close>

datatype piece = Lit string | Fmt pyval

type_synonym fstring = "piece list"

text \<open>
  What \<open>open\<close> finds at a path: nothing in an existing directory, no such directory,
  a file or directory that may not be opened, or a text file with its contents.
\<close>

datatype fentry = NoFile | NoDir | Denied | Text string

record world =
  records :: "log_record list"
  stdout :: "fstring list"
  files :: "string \<Rightarrow> fentry"
  now :: string

definition emit :: "level \<Rightarrow> string \<Rightarrow> pyval list \<Rightarrow> world \<Rightarrow> world" where
  "emit l fmt args w = w\<lparr>records := records w @ [(l, fmt, args)]\<rparr>"

definition print :: "fstring \<Rightarrow> world \<Rightarrow> world" where
  "print s w = w\<lparr>stdout := stdout w @ [s]\<rparr>"

section \<open>Inventory operations\<close>

text \<open>
  Every operation takes the dict that its parameter \<open>data\<close> refers to and the
  environment, and returns what the call returns or raises, the contents of that dict
  after the call, and the environment after the call.
\<close>

type_synonym 'r outcome = "(exn + 'r) \<times> dict \<times> world"

subsection \<open>\<open>add_item\<close>\<close>

text \<open>
  The handler of \<open>add_item\<close>: a \<open>TypeError\<close> is logged and swallowed, any other
  exception leaves the function.
\<close>

definition add_item_except ::
  "exn \<Rightarrow> dict \<Rightarrow> pyval \<Rightarrow> fstring list \<Rightarrow> world \<Rightarrow> (exn + unit) \<times> dict \<times> fstring list \<times> world"
where
  "add_item_except e data item logs w =
     (if e = TypeError
      then (Inr (), data, logs,
            emit ERROR ''Invalid data type for item or quantity. Could not add '%s'.'' [item] w)
      else (Inl e, data, logs, w))"

text \<open>
  \<open>add_item(data, item, qty, logs=None)\<close>. The result also holds the list that
  \<open>logs\<close> refers to after the call (a fresh list when the argument is \<open>None\<close>).
\<close>

definition add_item ::
  "dict \<Rightarrow> pyval \<Rightarrow> pyval \<Rightarrow> fstring list option \<Rightarrow> world \<Rightarrow> (exn + unit) \<times> dict \<times> fstring list \<times> world"
where
  "add_item data item qty logs_arg w =
     (let logs = (case logs_arg of None \<Rightarrow> [] | Some l \<Rightarrow> l) in
      case dict_get data item (VInt 0) of
        Inl e \<Rightarrow> add_item_except e data item logs w
      | Inr cur \<Rightarrow>
          (case py_add cur qty of
             Inl e \<Rightarrow> add_item_except e data item logs w
           | Inr new_qty \<Rightarrow>
               (case dict_setitem data item new_qty of
                  Inl e \<Rightarrow> add_item_except e data item logs w
                | Inr data' \<Rightarrow>
                    (Inr (), data',
                     logs @ [[Lit (now w), Lit '': Added '', Fmt qty, Lit '' of '', Fmt item]],
                     emit INFO ''Added %s of %s'' [qty, item] w))))"

subsection \<open>\<open>remove_item\<close>\<close>

definition remove_item_except :: "exn \<Rightarrow> dict \<Rightarrow> pyval \<Rightarrow> world \<Rightarrow> unit outcome" where
  "remove_item_except e data item w =
     (if e = TypeError
      then (Inr (), data, emit ERROR ''Invalid quantity type for item '%s'.'' [item] w)
      else (Inl e, data, w))"

text \<open>
  \<open>remove_item(data, item, qty)\<close>. The augmented assignment reads \<open>data[item]\<close>,
  subtracts and stores; the comparison that follows reads the stored value again.
\<close>

definition remove_item :: "dict \<Rightarrow> pyval \<Rightarrow> pyval \<Rightarrow> world \<Rightarrow> unit outcome" where
  "remove_item data item qty w =
     (case dict_contains data item of
        Inl e \<Rightarrow> remove_item_except e data item w
      | Inr False \<Rightarrow>
          (Inr (), data,
           emit WARNING ''Attempted to remove an item that does not exist: %s'' [item] w)
      | Inr True \<Rightarrow>
          (case dict_getitem data item of
             Inl e \<Rightarrow> remove_item_except e data item w
           | Inr cur \<Rightarrow>
               (case py_sub cur qty of
                  Inl e \<Rightarrow> remove_item_except e data item w
                | Inr rest \<Rightarrow>
                    (case dict_setitem data item rest of
                       Inl e \<Rightarrow> remove_item_except e data item w
                     | Inr data1 \<Rightarrow>
                         (case dict_getitem data1 item of
                            Inl e \<Rightarrow> remove_item_except e data1 item w
                          | Inr v \<Rightarrow>
                              (case py_le v (VInt 0) of
                                 Inl e \<Rightarrow> remove_item_except e data1 item w
                               | Inr False \<Rightarrow>
                                   (Inr (), data1, emit INFO ''Removed %s of %s'' [qty, item] w)
                               | Inr True \<Rightarrow>
                                   (case dict_delitem data1 item of
                                      Inl e \<Rightarrow> remove_item_except e data1 item w
                                    | Inr data2 \<Rightarrow>
                                        (Inr (), data2,
                                         emit INFO ''Removed %s of %s'' [qty, item] w))))))))"

subsection \<open>Queries and the report\<close>

text \<open>\<open>get_qty(data, item)\<close>\<close>

definition get_qty :: "dict \<Rightarrow> pyval \<Rightarrow> world \<Rightarrow> pyval outcome" where
  "get_qty data item w = (dict_get data item (VInt 0), data, w)"

text \<open>
  The comprehension of \<open>check_low_items\<close>: the items are visited in order, and the
  first comparison that raises ends the loop.
\<close>

fun low_items :: "dict \<Rightarrow> pyval \<Rightarrow> exn + pyval list" where
  "low_items [] threshold = Inr []"
| "low_items ((item, quantity) # rest) threshold =
     (case py_lt quantity threshold of
        Inl e \<Rightarrow> Inl e
      | Inr b \<Rightarrow>
          (case low_items rest threshold of
             Inl e \<Rightarrow> Inl e
           | Inr r \<Rightarrow> Inr (if b then item # r else r)))"

text \<open>\<open>check_low_items(data, threshold=5)\<close>\<close>

definition check_low_items :: "dict \<Rightarrow> pyval \<Rightarrow> world \<Rightarrow> pyval list outcome" where
  "check_low_items data threshold w = (low_items data threshold, data, w)"

text \<open>The loop of \<open>print_data\<close>.\<close>

fun print_items :: "dict \<Rightarrow> world \<Rightarrow> world" where
  "print_items [] w = w"
| "print_items ((item, quantity) # rest) w =
     print_items rest (print [Fmt item, Lit '' -> '', Fmt quantity] w)"

text \<open>\<open>print_data(data)\<close>; an empty dict is false.\<close>

definition print_data :: "dict \<Rightarrow> world \<Rightarrow> unit outcome" where
  "print_data data w =
     (let w1 = print [Lit (CHR 0x0A # ''--- Items Report ---'')] w;
          w2 = (if data = [] then print [Lit ''Inventory is empty.''] w1
                else print_items data w1)
      in (Inr (), data, print [Lit (''--------------------'' @ [CHR 0x0A])] w2))"

section \<open>Persistence\<close>

text \<open>
  The \<open>json\<close> module is not part of the script. \<open>load_data\<close> and \<open>save_data\<close>
  take its two functions as parameters: \<open>json_load\<close> maps the text of a file to the
  decoded value or the exception raised, \<open>json_dump\<close> maps a value to the text written
  to the file and the exception raised after writing it, if any.
\<close>

definition load_data :: "(string \<Rightarrow> exn + pyval) \<Rightarrow> string \<Rightarrow> world \<Rightarrow> (exn + pyval) \<times> world" where
  "load_data json_load file w =
     (let r =
        (case files w file of
           NoFile \<Rightarrow> (Inl FileNotFoundError, w)
         | NoDir \<Rightarrow> (Inl FileNotFoundError, w)
         | Denied \<Rightarrow> (Inl PermissionError, w)
         | Text s \<Rightarrow>
             (json_load s, emit INFO ''Inventory data loaded successfully from %s.'' [VStr file] w))
      in case r of
           (Inl FileNotFoundError, w') \<Rightarrow>
             (Inr (VDict []),
              emit WARNING ''%s not found. Starting with an empty inventory.'' [VStr file] w')
         | (Inl JSONDecodeError, w') \<Rightarrow>
             (Inr (VDict []),
              emit ERROR ''Failed to decode JSON from %s. Starting fresh.'' [VStr file] w')
         | _ \<Rightarrow> r)"


section \<open>The \<open>json\<close> module\<close>

text \<open>
  The functions below follow CPython's \<open>json\<close> package (\<open>json.encoder\<close>,
  \<open>json.decoder\<close> and \<open>json.scanner\<close>), which the script imports; they are what
  \<open>save_data\<close> and \<open>load_data\<close> are given as \<open>json_dump\<close> and \<open>json_load\<close>.
  Limits of the interpreter (recursion depth, the length of integer literals) are not
  modelled.
\<close>

subsection \<open>The encoder\<close>

text \<open>The backslash and the double quote.\<close>

definition bs :: char where
  "bs = CHR 0x5C"

definition dq :: char where
  "dq = CHR 0x22"

text \<open>A hexadecimal digit in lower case, as \<open>format(n, "04x")\<close> writes it.\<close>

definition hex_digit :: "nat \<Rightarrow> char" where
  "hex_digit n = ''0123456789abcdef'' ! n"

text \<open>
  \<open>json.dump\<close> is called with the default \<open>ensure_ascii=True\<close>: inside a string the
  quote and the backslash are escaped, the control characters with a short name get it,
  printable ASCII is written as it is, and every other character becomes a backslash, \<open>u00\<close> and two hexadecimal digits.
  (A \<open>char\<close> is a code point below 256.)
\<close>

definition escape_char :: "char \<Rightarrow> string" where
  "escape_char c =
     (if c = dq then [bs, dq]
      else if c = bs then [bs, bs]
      else if c = CHR 0x0A then [bs, CHR ''n'']
      else if c = CHR 0x0D then [bs, CHR ''r'']
      else if c = CHR 0x09 then [bs, CHR ''t'']
      else if c = CHR 0x08 then [bs, CHR ''b'']
      else if c = CHR 0x0C then [bs, CHR ''f'']
      else if 0x20 \<le> (of_char c :: nat) \<and> (of_char c :: nat) \<le> 0x7E then [c]
      else [bs, CHR ''u'', CHR ''0'', CHR ''0'',
            hex_digit ((of_char c :: nat) div 16), hex_digit ((of_char c :: nat) mod 16)])"

text \<open>A string literal: the escaped characters between double quotes.\<close>

definition encode_str :: "string \<Rightarrow> string" where
  "encode_str s = dq # concat (map escape_char s) @ [dq]"

text \<open>Decimal notation of an integer, as \<open>int.__repr__\<close> writes it.\<close>

definition digit_char :: "nat \<Rightarrow> char" where
  "digit_char d = ''0123456789'' ! d"

function show_nat :: "nat \<Rightarrow> string" where
  "show_nat n =
     (if n < 10 then [digit_char n] else show_nat (n div 10) @ [digit_char (n mod 10)])"
  by pat_completeness auto
termination
  by (relation "measure id") auto

declare show_nat.simps [simp del]

definition show_int :: "int \<Rightarrow> string" where
  "show_int i = (if i < 0 then CHR ''-'' # show_nat (nat (- i)) else show_nat (nat i))"

text \<open>With \<open>indent=4\<close>, every item starts on a new line, four spaces per nesting level.\<close>

definition newline_indent :: "nat \<Rightarrow> string" where
  "newline_indent lvl = CHR 0x0A # replicate (4 * lvl) CHR '' ''"

text \<open>
  The key of an item: a string as it is, \<open>None\<close> and integers by their JSON text; any
  other key raises \<open>TypeError\<close>.
\<close>

fun key_text :: "pyval \<Rightarrow> exn + string" where
  "key_text (VStr s) = Inr s"
| "key_text VNone = Inr ''null''"
| "key_text (VInt i) = Inr (show_int i)"
| "key_text _ = Inl TypeError"

text \<open>
  The encoder yields chunks that \<open>json.dump\<close> writes one by one; a chunk is written
  only if nothing was raised before it.
\<close>

definition next_chunk :: "string \<times> exn option \<Rightarrow> string \<times> exn option \<Rightarrow> string \<times> exn option" where
  "next_chunk a b = (case a of (t, Some e) \<Rightarrow> (t, Some e) | (t, None) \<Rightarrow> (t @ fst b, snd b))"

text \<open>
  The encoder at a nesting level. An empty list or dict is written as \<open>[]\<close> or
  \<open>{}\<close>; otherwise the items follow the opening bracket on lines of their own, separated
  by commas, and the closing bracket is on a line of its own. In a dict the key is checked
  before the separator is written.
\<close>

fun encode :: "nat \<Rightarrow> pyval \<Rightarrow> string \<times> exn option"
  and encode_list :: "nat \<Rightarrow> bool \<Rightarrow> pyval list \<Rightarrow> string \<times> exn option"
  and encode_dict :: "nat \<Rightarrow> bool \<Rightarrow> (pyval \<times> pyval) list \<Rightarrow> string \<times> exn option"
where
  "encode lvl VNone = (''null'', None)"
| "encode lvl (VInt i) = (show_int i, None)"
| "encode lvl (VStr s) = (encode_str s, None)"
| "encode lvl (VList xs) =
     (if xs = [] then (''[]'', None)
      else next_chunk (''['' @ newline_indent (Suc lvl), None)
             (next_chunk (encode_list (Suc lvl) True xs) (newline_indent lvl @ '']'', None)))"
| "encode lvl (VDict kvs) =
     (if kvs = [] then (''{}'', None)
      else next_chunk (''{'' @ newline_indent (Suc lvl), None)
             (next_chunk (encode_dict (Suc lvl) True kvs) (newline_indent lvl @ ''}'', None)))"
| "encode_list lvl first [] = ([], None)"
| "encode_list lvl first (x # xs) =
     next_chunk ((if first then [] else '','' @ newline_indent lvl), None)
       (next_chunk (encode lvl x) (encode_list lvl False xs))"
| "encode_dict lvl first [] = ([], None)"
| "encode_dict lvl first ((k, v) # kvs) =
     (case key_text k of
        Inl e \<Rightarrow> ([], Some e)
      | Inr key \<Rightarrow>
          next_chunk ((if first then [] else '','' @ newline_indent lvl) @ encode_str key @ '': '', None)
            (next_chunk (encode lvl v) (encode_dict lvl False kvs)))"



subsection \<open>The decoder\<close>

text \<open>
  The decoder is modelled where its result lies in \<open>pyval\<close>. A scanner returns the
  value and the rest of the text (\<open>Ok\<close>), or fails as \<open>JSONDecodeError\<close> (\<open>Bad\<close>),
  or meets something the model does not cover (\<open>Beyond\<close>): a float, \<open>true\<close>,
  \<open>false\<close>, \<open>NaN\<close>, an infinity, a \<open>u\<close> escape of a code point from 256
  on, or nesting deeper than the fuel.
\<close>

datatype 'a parsed = Ok 'a string | Bad | Beyond

text \<open>JSON whitespace: space, tab, line feed, carriage return.\<close>

definition is_ws :: "char \<Rightarrow> bool" where
  "is_ws c = (c = CHR '' '' \<or> c = CHR 0x09 \<or> c = CHR 0x0A \<or> c = CHR 0x0D)"

definition skip_ws :: "string \<Rightarrow> string" where
  "skip_ws s = dropWhile is_ws s"

definition is_digit :: "char \<Rightarrow> bool" where
  "is_digit c = (48 \<le> (of_char c :: nat) \<and> (of_char c :: nat) \<le> 57)"

text \<open>The value of a hexadecimal digit, in either case.\<close>

definition hex_val :: "char \<Rightarrow> nat option" where
  "hex_val c =
     (let n = (of_char c :: nat) in
      if 48 \<le> n \<and> n \<le> 57 then Some (n - 48)
      else if 97 \<le> n \<and> n \<le> 102 then Some (n - 87)
      else if 65 \<le> n \<and> n \<le> 70 then Some (n - 55)
      else None)"

definition hex4 :: "char \<Rightarrow> char \<Rightarrow> char \<Rightarrow> char \<Rightarrow> nat option" where
  "hex4 a b c d =
     (case (hex_val a, hex_val b, hex_val c, hex_val d) of
        (Some x, Some y, Some z, Some u) \<Rightarrow> Some (((x * 16 + y) * 16 + z) * 16 + u)
      | _ \<Rightarrow> None)"

text \<open>The character after a backslash, other than \<open>u\<close>.\<close>

definition unescape :: "char \<Rightarrow> char option" where
  "unescape e =
     (if e = dq then Some dq
      else if e = bs then Some bs
      else if e = CHR ''/'' then Some CHR ''/''
      else if e = CHR ''b'' then Some (CHR 0x08)
      else if e = CHR ''f'' then Some (CHR 0x0C)
      else if e = CHR ''n'' then Some (CHR 0x0A)
      else if e = CHR ''r'' then Some (CHR 0x0D)
      else if e = CHR ''t'' then Some (CHR 0x09)
      else None)"

definition put_char :: "char \<Rightarrow> string parsed \<Rightarrow> string parsed" where
  "put_char c r = (case r of Ok t rest \<Rightarrow> Ok (c # t) rest | Bad \<Rightarrow> Bad | Beyond \<Rightarrow> Beyond)"

text \<open>
  \<open>scanstring\<close> in strict mode, from the character after the opening quote: the text up
  to the closing quote with the escapes decoded. A control character, an unknown escape,
  four characters that are not hexadecimal digits and the end of the text are errors.
\<close>

fun scanstring :: "string \<Rightarrow> string parsed" where
  "scanstring [] = Bad"
| "scanstring (c # s) =
     (if c = dq then Ok [] s
      else if c = bs then
        (case s of
           [] \<Rightarrow> Bad
         | e # s1 \<Rightarrow>
             if e = CHR ''u'' then
               (case s1 of
                  h1 # h2 # h3 # h4 # s2 \<Rightarrow>
                    (case hex4 h1 h2 h3 h4 of
                       None \<Rightarrow> Bad
                     | Some n \<Rightarrow> if n < 256 then put_char (char_of n) (scanstring s2) else Beyond)
                | _ \<Rightarrow> Bad)
             else
               (case unescape e of
                  None \<Rightarrow> Bad
                | Some ch \<Rightarrow> put_char ch (scanstring s1)))
      else if (of_char c :: nat) < 0x20 then Bad
      else put_char c (scanstring s))"

text \<open>The value of a string of decimal digits.\<close>

definition digits_val :: "string \<Rightarrow> nat" where
  "digits_val ds = foldl (\<lambda>a c. 10 * a + ((of_char c :: nat) - 48)) 0 ds"

text \<open>\<open>s.startswith(p)\<close>\<close>

definition starts_with :: "string \<Rightarrow> string \<Rightarrow> bool" where
  "starts_with p s = (take (length p) s = p)"

text \<open>
  After the integer part, a fraction (a point and a digit) or an exponent (\<open>e\<close> or
  \<open>E\<close>, an optional sign, a digit) makes the number a float.
\<close>

definition float_tail :: "string \<Rightarrow> bool" where
  "float_tail r =
     (case r of
        [] \<Rightarrow> False
      | c # r1 \<Rightarrow>
          if c = CHR ''.'' then (case r1 of [] \<Rightarrow> False | d # _ \<Rightarrow> is_digit d)
          else if c = CHR ''e'' \<or> c = CHR ''E'' then
            (case r1 of
               [] \<Rightarrow> False
             | d # r2 \<Rightarrow>
                 if d = CHR ''+'' \<or> d = CHR ''-'' then (case r2 of [] \<Rightarrow> False | d' # _ \<Rightarrow> is_digit d')
                 else is_digit d)
          else False)"

text \<open>
  A number: an optional minus sign, then either a single \<open>0\<close> or a digit from 1 to 9
  followed by all the digits there are.
\<close>

definition scan_number :: "string \<Rightarrow> pyval parsed" where
  "scan_number s =
     (let neg = starts_with ''-'' s;
          s1 = (if neg then tl s else s)
      in case s1 of
           [] \<Rightarrow> Bad
         | c # s2 \<Rightarrow>
             if \<not> is_digit c then Bad
             else
               let ds = (if c = CHR ''0'' then [c] else c # takeWhile is_digit s2);
                   rest = (if c = CHR ''0'' then s2 else dropWhile is_digit s2)
               in if float_tail rest then Beyond
                  else Ok (VInt (if neg then - int (digits_val ds) else int (digits_val ds))) rest)"

text \<open>
  \<open>scan_once\<close>, the object scanner and the array scanner. An object is built by storing
  its members one after the other, so a repeated key keeps its first position and its last
  value. The first argument bounds the number of nested calls.
\<close>

fun parse_value :: "nat \<Rightarrow> string \<Rightarrow> pyval parsed"
  and parse_members :: "nat \<Rightarrow> dict \<Rightarrow> string \<Rightarrow> pyval parsed"
  and parse_elements :: "nat \<Rightarrow> pyval list \<Rightarrow> string \<Rightarrow> pyval parsed"
where
  "parse_value 0 s = Beyond"
| "parse_value (Suc n) s =
     (case s of
        [] \<Rightarrow> Bad
      | c # r \<Rightarrow>
          if c = dq then
            (case scanstring r of Ok t rest \<Rightarrow> Ok (VStr t) rest | Bad \<Rightarrow> Bad | Beyond \<Rightarrow> Beyond)
          else if c = CHR ''{'' then
            (if starts_with ''}'' (skip_ws r) then Ok (VDict []) (tl (skip_ws r))
             else parse_members n [] (skip_ws r))
          else if c = CHR ''['' then
            (if starts_with '']'' (skip_ws r) then Ok (VList []) (tl (skip_ws r))
             else parse_elements n [] (skip_ws r))
          else if starts_with ''null'' s then Ok VNone (drop 4 s)
          else if starts_with ''true'' s \<or> starts_with ''false'' s \<or> starts_with ''NaN'' s
                  \<or> starts_with ''Infinity'' s \<or> starts_with ''-Infinity'' s then Beyond
          else scan_number s)"
| "parse_members 0 acc s = Beyond"
| "parse_members (Suc n) acc s =
     (if \<not> starts_with [dq] s then Bad
      else case scanstring (tl s) of
             Bad \<Rightarrow> Bad
           | Beyond \<Rightarrow> Beyond
           | Ok key r1 \<Rightarrow>
               if \<not> starts_with '':'' (skip_ws r1) then Bad
               else case parse_value n (skip_ws (tl (skip_ws r1))) of
                      Bad \<Rightarrow> Bad
                    | Beyond \<Rightarrow> Beyond
                    | Ok v r2 \<Rightarrow>
                        if starts_with ''}'' (skip_ws r2)
                        then Ok (VDict (store acc (VStr key) v)) (tl (skip_ws r2))
                        else if starts_with '','' (skip_ws r2)
                        then parse_members n (store acc (VStr key) v) (skip_ws (tl (skip_ws r2)))
                        else Bad)"
| "parse_elements 0 acc s = Beyond"
| "parse_elements (Suc n) acc s =
     (case parse_value n s of
        Bad \<Rightarrow> Bad
      | Beyond \<Rightarrow> Beyond
      | Ok v r \<Rightarrow>
          if starts_with '']'' (skip_ws r) then Ok (VList (acc @ [v])) (tl (skip_ws r))
          else if starts_with '','' (skip_ws r) then parse_elements n (acc @ [v]) (skip_ws (tl (skip_ws r)))
          else Bad)"




section \<open>Sequences of calls\<close>

text \<open>
  A caller applies \<open>add_item\<close> and \<open>remove_item\<close> to one dict, one call after the
  other; an exception that leaves a call ends the sequence.
\<close>

datatype call = Add pyval pyval | Remove pyval pyval

fun apply_call :: "call \<Rightarrow> dict \<Rightarrow> world \<Rightarrow> unit outcome" where
  "apply_call (Add item qty) data w =
     (case add_item data item qty None w of (r, data', logs, w') \<Rightarrow> (r, data', w'))"
| "apply_call (Remove item qty) data w = remove_item data item qty w"

fun run :: "call list \<Rightarrow> dict \<Rightarrow> world \<Rightarrow> unit outcome" where
  "run [] data w = (Inr (), data, w)"
| "run (c # cs) data w =
     (case apply_call c data w of
        (Inl e, data', w') \<Rightarrow> (Inl e, data', w')
      | (Inr u, data', w') \<Rightarrow> run cs data' w')"

text \<open>The invariant of the data model: every stored quantity is a positive integer.\<close>

fun positive_qty :: "pyval \<Rightarrow> bool" where
  "positive_qty (VInt n) = (0 < n)"
| "positive_qty _ = False"

definition positive :: "dict \<Rightarrow> bool" where
  "positive d = list_all (\<lambda>kv. positive_qty (snd kv)) d"

text \<open>Calls whose quantity is an integer, strictly positive when it is added.\<close>

fun add_positive :: "call \<Rightarrow> bool" where
  "add_positive (Add item (VInt q)) = (0 < q)"
| "add_positive (Remove item (VInt q)) = True"
| "add_positive _ = False"

text \<open>An environment with no files, nothing logged and nothing printed.\<close>

definition w0 :: world where
  "w0 = \<lparr>records = [], stdout = [], files = (\<lambda>p. NoFile), now = ''2024-01-01 00:00:00''\<rparr>"

text \<open>The same environment with a truncated \<open>inventory.json\<close>.\<close>

definition w_corrupt :: world where
  \<open>w_corrupt = w0\<lparr>files := (files w0)(''inventory.json'' := Text ''{"apple": '')\<rparr>\<close>

subsection \<open>The running total of the specification\<close>

text \<open>
  The quantity the specification assigns to an item after a sequence of calls: the sum
  of the adds minus the removes for that item, where a total that would be zero or below
  is replaced by zero at each step.
\<close>

definition clamp :: "int \<Rightarrow> int" where
  "clamp x = (if x \<le> 0 then 0 else x)"

fun total_step :: "call \<Rightarrow> pyval \<Rightarrow> int \<Rightarrow> int" where
  "total_step (Add k (VInt q)) item t = (if k = item then clamp (t + q) else t)"
| "total_step (Remove k (VInt q)) item t = (if k = item then clamp (t - q) else t)"
| "total_step _ item t = t"

fun running_total :: "call list \<Rightarrow> pyval \<Rightarrow> int \<Rightarrow> int" where
  "running_total [] item t = t"
| "running_total (c # cs) item t = running_total cs item (total_step c item t)"

text \<open>Calls with quantities for which the running total describes the code.\<close>

fun valid_call :: "call \<Rightarrow> bool" where
  "valid_call (Add k (VInt q)) = (0 < q)"
| "valid_call (Remove k (VInt q)) = (0 \<le> q)"
| "valid_call _ = False"

text \<open>The integer stored for an item, zero when there is none.\<close>

definition qty_of :: "dict \<Rightarrow> pyval \<Rightarrow> int" where
  "qty_of d item = (case map_of d item of Some (VInt n) \<Rightarrow> n | _ \<Rightarrow> 0)"

section \<open>Properties of the dict operations\<close>

lemma positive_map_of: "positive d \<Longrightarrow> map_of d k = Some v \<Longrightarrow> positive_qty v"
  by (induction d) (auto simp: positive_def split: if_splits)

lemma positive_store: "positive d \<Longrightarrow> positive_qty v \<Longrightarrow> positive (store d k v)"
  by (induction d) (auto simp: positive_def)

lemma positive_filter: "positive d \<Longrightarrow> positive (filter P d)"
  by (induction d) (auto simp: positive_def)

lemma positive_qty_int: "positive_qty v \<Longrightarrow> \<exists>n. v = VInt n \<and> 0 < n"
  by (cases v) auto


lemma py_add_err: "py_add a b = Inl e \<Longrightarrow> e = TypeError"
  by (cases "(a, b)" rule: py_add.cases) auto

lemma py_sub_err: "py_sub a b = Inl e \<Longrightarrow> e = TypeError"
  by (cases "(a, b)" rule: py_sub.cases) auto

lemma py_sub_int: "py_sub a b = Inr v \<Longrightarrow> \<exists>x y. a = VInt x \<and> b = VInt y \<and> v = VInt (x - y)"
  by (cases "(a, b)" rule: py_sub.cases) auto

lemma py_add_positive:
  "py_add (VInt a) qty = Inr v \<Longrightarrow> 0 \<le> a \<Longrightarrow> add_positive (Add item qty) \<Longrightarrow> positive_qty v"
  by (cases qty) auto

lemma add_item_returns: "fst (add_item data item qty logs w) = Inr ()"
  by (auto simp: add_item_def add_item_except_def dict_get_def dict_setitem_def Let_def
      split: sum.splits dest: py_add_err)

lemma add_item_positive:
  assumes "positive data" "add_positive (Add item qty)"
  shows "positive (fst (snd (add_item data item qty logs w)))"
proof (cases "hashable item")
  case False
  then show ?thesis using assms(1)
    by (simp add: add_item_def add_item_except_def dict_get_def Let_def)
next
  case True
  show ?thesis
  proof (cases "map_of data item")
    case None
    then show ?thesis using True assms py_add_positive[of 0 qty _ item]
      by (auto simp: add_item_def add_item_except_def dict_get_def dict_setitem_def Let_def
          positive_store split: sum.splits)
  next
    case (Some cur)
    then obtain n where "cur = VInt n" "0 < n"
      using assms(1) positive_map_of positive_qty_int by blast
    then show ?thesis using True Some assms py_add_positive[of n qty _ item]
      by (auto simp: add_item_def add_item_except_def dict_get_def dict_setitem_def Let_def
          positive_store split: sum.splits)
  qed
qed

lemma map_of_store_same: "map_of (store d k v) k = Some v"
  by (induction d) auto

lemma map_of_store_other: "k' \<noteq> k \<Longrightarrow> map_of (store d k v) k' = map_of d k'"
  by (induction d) auto

lemma map_of_filter_same: "map_of (filter (\<lambda>kv. fst kv \<noteq> k) d) k = None"
  by (induction d) auto

lemma map_of_filter_other: "k' \<noteq> k \<Longrightarrow> map_of (filter (\<lambda>kv. fst kv \<noteq> k) d) k' = map_of d k'"
  by (induction d) auto

lemma filter_store: "filter (\<lambda>kv. fst kv \<noteq> k) (store d k v) = filter (\<lambda>kv. fst kv \<noteq> k) d"
  by (induction d) auto

text \<open>What \<open>remove_item\<close> does to the dict, case by case.\<close>

lemma remove_item_unhashable:
  "\<not> hashable item \<Longrightarrow> remove_item data item qty w =
     (Inr (), data, emit ERROR ''Invalid quantity type for item '%s'.'' [item] w)"
  by (simp add: remove_item_def dict_contains_def remove_item_except_def)

lemma remove_item_absent:
  "hashable item \<Longrightarrow> map_of data item = None \<Longrightarrow> remove_item data item qty w =
     (Inr (), data, emit WARNING ''Attempted to remove an item that does not exist: %s'' [item] w)"
  by (simp add: remove_item_def dict_contains_def)

lemma remove_item_present_int:
  "hashable item \<Longrightarrow> map_of data item = Some (VInt n) \<Longrightarrow>
   remove_item data item (VInt q) w =
     (Inr (), (if n - q \<le> 0 then filter (\<lambda>kv. fst kv \<noteq> item) data
               else store data item (VInt (n - q))),
      emit INFO ''Removed %s of %s'' [VInt q, item] w)"
  by (simp add: remove_item_def dict_contains_def dict_getitem_def dict_setitem_def
      dict_delitem_def map_of_store_same filter_store)

lemma remove_item_present_bad:
  "hashable item \<Longrightarrow> map_of data item = Some cur \<Longrightarrow> py_sub cur qty = Inl e \<Longrightarrow>
   remove_item data item qty w =
     (Inr (), data, emit ERROR ''Invalid quantity type for item '%s'.'' [item] w)"
  by (auto simp: remove_item_def dict_contains_def dict_getitem_def remove_item_except_def
      dest: py_sub_err)

lemma remove_item_positive:
  assumes "positive data"
  shows "positive (fst (snd (remove_item data item qty w))) \<and> fst (remove_item data item qty w) = Inr ()"
proof (cases "hashable item")
  case False
  then show ?thesis using assms by (simp add: remove_item_unhashable)
next
  case True
  show ?thesis
  proof (cases "map_of data item")
    case None
    then show ?thesis using True assms by (simp add: remove_item_absent)
  next
    case (Some cur)
    then obtain n where cur: "cur = VInt n" "0 < n"
      using assms positive_map_of positive_qty_int by blast
    show ?thesis
    proof (cases "py_sub cur qty")
      case (Inl e)
      then show ?thesis using True Some assms by (simp add: remove_item_present_bad)
    next
      case (Inr v)
      then obtain q where "qty = VInt q" using cur py_sub_int by blast
      then show ?thesis using True Some cur assms
        by (auto simp: remove_item_present_int positive_store positive_filter)
    qed
  qed
qed

lemma apply_call_positive:
  assumes "positive data" "add_positive c"
  shows "positive (fst (snd (apply_call c data w))) \<and> fst (apply_call c data w) = Inr ()"
proof (cases c)
  case (Add item qty)
  then show ?thesis
    using add_item_positive[OF assms(1), of item qty None w] assms(2)
      add_item_returns[of data item qty None w]
    by (auto split: prod.splits)
next
  case (Remove item qty)
  then show ?thesis using remove_item_positive[OF assms(1)] by simp
qed

lemma run_positive:
  "positive data \<Longrightarrow> list_all add_positive calls \<Longrightarrow>
   positive (fst (snd (run calls data w))) \<and> fst (run calls data w) = Inr ()"
proof (induction calls arbitrary: data w)
  case Nil
  then show ?case by simp
next
  case (Cons c cs)
  obtain r d w' where step: "apply_call c data w = (r, d, w')"
    by (cases "apply_call c data w") auto
  with Cons.prems apply_call_positive[of data c w] have "positive d" "r = Inr ()"
    by auto
  with Cons step show ?case by simp
qed


lemma valid_add_positive: "valid_call c \<Longrightarrow> add_positive c"
  by (cases c rule: valid_call.cases) auto

lemma add_item_unhashable:
  "\<not> hashable item \<Longrightarrow> fst (snd (add_item data item qty logs w)) = data"
  by (simp add: add_item_def add_item_except_def dict_get_def Let_def)

lemma add_item_int_absent:
  "hashable item \<Longrightarrow> map_of data item = None \<Longrightarrow>
   fst (snd (add_item data item (VInt q) logs w)) = store data item (VInt q)"
  by (simp add: add_item_def dict_get_def dict_setitem_def Let_def)

lemma add_item_int_present:
  "hashable item \<Longrightarrow> map_of data item = Some (VInt n) \<Longrightarrow>
   fst (snd (add_item data item (VInt q) logs w)) = store data item (VInt (n + q))"
  by (simp add: add_item_def dict_get_def dict_setitem_def Let_def)

lemma add_item_int:
  "hashable item \<Longrightarrow> map_of data item = None \<or> map_of data item = Some (VInt (qty_of data item)) \<Longrightarrow>
   fst (snd (add_item data item (VInt q) logs w)) = store data item (VInt (qty_of data item + q))"
  using add_item_int_absent[of item data q logs w]
    add_item_int_present[of item data "qty_of data item" q logs w]
  by (auto simp: qty_of_def)

lemma apply_call_Add:
  "fst (snd (apply_call (Add item qty) data w)) = fst (snd (add_item data item qty None w))"
  "fst (apply_call (Add item qty) data w) = fst (add_item data item qty None w)"
  by (simp_all split: prod.splits)

lemma positive_lookup:
  "positive d \<Longrightarrow> map_of d k = None \<or> map_of d k = Some (VInt (qty_of d k)) \<and> 0 < qty_of d k"
  by (cases "map_of d k") (auto simp: qty_of_def dest!: positive_map_of positive_qty_int)

lemma qty_of_nonneg: "positive d \<Longrightarrow> 0 \<le> qty_of d k"
  using positive_lookup[of d k] by (auto simp: qty_of_def)

lemma apply_call_qty:
  assumes pos: "positive d" and v: "valid_call c" and h: "hashable item"
  shows "qty_of (fst (snd (apply_call c d w))) item = total_step c item (qty_of d item)"
proof (cases c rule: valid_call.cases)
  case (1 k q)
  show ?thesis
  proof (cases "hashable k")
    case False
    then have "k \<noteq> item" using h by auto
    then show ?thesis using False 1 add_item_unhashable[of k d "VInt q" None w]
      by (simp add: apply_call_Add del: apply_call.simps)
  next
    case True
    have d': "fst (snd (apply_call c d w)) = store d k (VInt (qty_of d k + q))"
      using add_item_int[OF True, of d q None w] positive_lookup[OF pos, of k] 1
      by (auto simp: apply_call_Add simp del: apply_call.simps)
    show ?thesis
    proof (cases "k = item")
      case True
      then show ?thesis using d' 1 v qty_of_nonneg[OF pos, of k]
        by (simp add: qty_of_def map_of_store_same clamp_def)
    next
      case False
      then show ?thesis using d' 1
        by (simp add: qty_of_def map_of_store_other)
    qed
  qed
next
  case (2 k q)
  show ?thesis
  proof (cases "hashable k")
    case False
    then have "k \<noteq> item" using h by auto
    then show ?thesis using False 2 by (simp add: remove_item_unhashable)
  next
    case True
    show ?thesis
    proof (cases "map_of d k")
      case None
      then show ?thesis using True 2 v
        by (auto simp: remove_item_absent qty_of_def clamp_def)
    next
      case (Some cur)
      then obtain n where n: "map_of d k = Some (VInt n)" "0 < n"
        using pos positive_map_of positive_qty_int by blast
      have qk: "qty_of d k = n"
        by (simp add: qty_of_def n)
      have rm: "fst (snd (remove_item d k (VInt q) w)) =
          (if n - q \<le> 0 then filter (\<lambda>kv. fst kv \<noteq> k) d else store d k (VInt (n - q)))"
        using remove_item_present_int[OF True n(1)] by simp
      show ?thesis
      proof (cases "k = item")
        case True
        have "qty_of (fst (snd (remove_item d k (VInt q) w))) item = (if n - q \<le> 0 then 0 else n - q)"
          unfolding rm using True by (simp add: qty_of_def map_of_filter_same map_of_store_same)
        then show ?thesis using 2 True qk by (simp add: clamp_def)
      next
        case False
        have "qty_of (fst (snd (remove_item d k (VInt q) w))) item = qty_of d item"
          unfolding rm using False by (simp add: qty_of_def map_of_filter_other map_of_store_other)
        then show ?thesis using 2 False by simp
      qed
    qed
  qed
qed (use v in auto)

lemma run_qty:
  "positive d \<Longrightarrow> list_all valid_call calls \<Longrightarrow> hashable item \<Longrightarrow>
   qty_of (fst (snd (run calls d w))) item = running_total calls item (qty_of d item)"
proof (induction calls arbitrary: d w)
  case Nil
  then show ?case by simp
next
  case (Cons c cs)
  obtain r d' w' where step: "apply_call c d w = (r, d', w')"
    by (cases "apply_call c d w") auto
  have "positive d'" "r = Inr ()"
    using apply_call_positive[of d c w] Cons.prems step valid_add_positive by auto
  moreover have "qty_of d' item = total_step c item (qty_of d item)"
    using apply_call_qty[of d c item w] Cons.prems step by simp
  ultimately show ?case using Cons step by simp
qed

lemma positive_low_items: "positive d \<Longrightarrow> low_items d (VInt 0) = Inr []"
  by (induction d) (auto simp: positive_def dest!: positive_qty_int)

lemma positive_Nil: "positive []"
  by (simp add: positive_def)

lemma positive_set: "positive d \<Longrightarrow> (k, v) \<in> set d \<Longrightarrow> \<exists>n. v = VInt n \<and> 0 < n"
  by (auto simp: positive_def list_all_iff dest!: positive_qty_int)

lemma low_items_int:
  "low_items (map (\<lambda>(k, n). (k, VInt n)) kvs) (VInt t) = Inr (map fst (filter (\<lambda>(k, n). n < t) kvs))"
  by (induction kvs) auto

lemma print_items_stdout: "records (print_items d w) = records w"
  by (induction d w rule: print_items.induct) (auto simp: print_def)

section \<open>Properties of the \<open>json\<close> model\<close>









































section \<open>The claims\<close>

subsection \<open>C1: stored quantities are positive\<close>

text \<open>
  C1 as stated fails: \<open>add_item\<close> stores the sum it computes without looking at its
  sign, so adding \<open>-5\<close> of a new item leaves the key in the dict with the value \<open>-5\<close>.
\<close>

theorem add_item_stores_negative:
  "fst (snd (add_item [] (VStr ''apple'') (VInt (- 5)) None w0)) = [(VStr ''apple'', VInt (- 5))]"
  by (simp add: add_item_def dict_get_def dict_setitem_def)

text \<open>
  C1, amended: in every inventory reached from the empty one by \<open>add_item\<close> and
  \<open>remove_item\<close> calls whose quantities are all integers, those given to
  \<open>add_item\<close> strictly positive, every key present holds a strictly positive integer.
\<close>

theorem reachable_quantities_positive:
  assumes "list_all add_positive calls"
    and "(k, v) \<in> set (fst (snd (run calls [] w)))"
  shows "\<exists>n. v = VInt n \<and> 0 < n"
  using run_positive[OF positive_Nil assms(1), of w] assms(2) positive_set by blast

theorem reachable_quantities_positive_witness:
  "list_all add_positive [Add (VStr ''apple'') (VInt 10), Remove (VStr ''apple'') (VInt 3)]
   \<and> (VStr ''apple'', VInt 7) \<in>
       set (fst (snd (run [Add (VStr ''apple'') (VInt 10), Remove (VStr ''apple'') (VInt 3)] [] w0)))
   \<and> (\<exists>n. VInt 7 = VInt n \<and> 0 < n)"
proof -
  have h1: "list_all add_positive [Add (VStr ''apple'') (VInt 10), Remove (VStr ''apple'') (VInt 3)]"
    by simp
  have h2: "(VStr ''apple'', VInt 7) \<in>
       set (fst (snd (run [Add (VStr ''apple'') (VInt 10), Remove (VStr ''apple'') (VInt 3)] [] w0)))"
    by (simp add: add_item_def remove_item_def dict_get_def dict_setitem_def dict_contains_def
        dict_getitem_def dict_delitem_def)
  from reachable_quantities_positive[OF h1 h2] h1 h2 show ?thesis by blast
qed

subsection \<open>C2: the final quantity is the clamped running total\<close>

text \<open>
  C2 as stated fails: after adding 3 and then adding \<open>-5\<close> of an item, the item is
  stored with the quantity \<open>-2\<close>, while the clamped running total is 0.
\<close>

theorem negative_total_counterexample:
  "fst (get_qty (fst (snd (run [Add (VStr ''apple'') (VInt 3), Add (VStr ''apple'') (VInt (- 5))] [] w0)))
        (VStr ''apple'') w0) = Inr (VInt (- 2))
   \<and> running_total [Add (VStr ''apple'') (VInt 3), Add (VStr ''apple'') (VInt (- 5))] (VStr ''apple'') 0 = 0"
  by (simp add: add_item_def get_qty_def dict_get_def dict_setitem_def clamp_def)

text \<open>
  C2, amended: for every sequence of calls in which each \<open>add_item\<close> quantity is a
  strictly positive integer and each \<open>remove_item\<close> quantity is a non-negative
  integer, applied to the empty inventory, and for every hashable item, \<open>get_qty\<close>
  returns the clamped running total of the item, and the item is a key of the dict
  exactly when that total is positive.
\<close>

theorem final_quantity_running_total:
  assumes "list_all valid_call calls" and "hashable item"
  shows "fst (get_qty (fst (snd (run calls [] w))) item w') = Inr (VInt (running_total calls item 0))
       \<and> (item \<in> fst ` set (fst (snd (run calls [] w))) \<longleftrightarrow> 0 < running_total calls item 0)"
proof -
  let ?d = "fst (snd (run calls [] w))"
  have addp: "list_all add_positive calls"
    using assms(1) valid_add_positive by (auto simp: list_all_iff)
  have pos: "positive ?d"
    using run_positive[OF positive_Nil addp, of w] by simp
  have q: "qty_of ?d item = running_total calls item 0"
    using run_qty[OF positive_Nil assms, of w] by (simp add: qty_of_def)
  from positive_lookup[OF pos, of item] show ?thesis
  proof
    assume none: "map_of ?d item = None"
    have "qty_of ?d item = 0"
      using none by (simp add: qty_of_def)
    moreover have "item \<notin> fst ` set ?d"
      using none by (simp add: map_of_eq_None_iff)
    ultimately show ?thesis using none q assms(2)
      by (simp add: get_qty_def dict_get_def)
  next
    assume some: "map_of ?d item = Some (VInt (qty_of ?d item)) \<and> 0 < qty_of ?d item"
    then have "item \<in> fst ` set ?d"
      by (metis map_of_eq_None_iff option.distinct(1))
    with some q assms(2) show ?thesis
      by (simp add: get_qty_def dict_get_def)
  qed
qed
theorem final_quantity_running_total_witness:
  "list_all valid_call [Add (VStr ''apple'') (VInt 10), Remove (VStr ''apple'') (VInt 3),
                        Remove (VStr ''pear'') (VInt 1)]
   \<and> hashable (VStr ''apple'')
   \<and> fst (get_qty (fst (snd (run [Add (VStr ''apple'') (VInt 10), Remove (VStr ''apple'') (VInt 3),
                                    Remove (VStr ''pear'') (VInt 1)] [] w0))) (VStr ''apple'') w0)
       = Inr (VInt 7)"
proof -
  have h1: "list_all valid_call [Add (VStr ''apple'') (VInt 10), Remove (VStr ''apple'') (VInt 3),
                        Remove (VStr ''pear'') (VInt 1)]"
    by simp
  have h2: "hashable (VStr ''apple'')" by simp
  have t: "running_total [Add (VStr ''apple'') (VInt 10), Remove (VStr ''apple'') (VInt 3),
                        Remove (VStr ''pear'') (VInt 1)] (VStr ''apple'') 0 = 7"
    by (simp add: clamp_def)
  from final_quantity_running_total[OF h1 h2, of w0 w0] h1 h2 t show ?thesis by simp
qed

subsection \<open>C3: saving and loading\<close>



subsection \<open>C4: type mismatches in \<open>add_item\<close>\<close>

text \<open>
  C4: when the lookup of the item raises \<open>TypeError\<close> (an unhashable item) or adding
  the quantity to the current value does (a quantity that cannot be added), \<open>add_item\<close>
  returns normally, leaves the dict and the log list as they were, and emits one record at
  level \<open>ERROR\<close>.
\<close>

theorem add_item_type_mismatch:
  assumes "dict_get data item (VInt 0) = Inl TypeError
         \<or> (\<exists>cur. dict_get data item (VInt 0) = Inr cur \<and> py_add cur qty = Inl TypeError)"
  shows "add_item data item qty logs w =
           (Inr (), data, (case logs of None \<Rightarrow> [] | Some l \<Rightarrow> l),
            emit ERROR ''Invalid data type for item or quantity. Could not add '%s'.'' [item] w)"
  using assms by (auto simp: add_item_def add_item_except_def Let_def)

theorem add_item_type_mismatch_witness:
  "(\<exists>cur. dict_get [(VStr ''apple'', VInt 10)] (VInt 123) (VInt 0) = Inr cur
          \<and> py_add cur (VStr ''ten'') = Inl TypeError)
   \<and> add_item [(VStr ''apple'', VInt 10)] (VInt 123) (VStr ''ten'') None w0 =
       (Inr (), [(VStr ''apple'', VInt 10)], [],
        emit ERROR ''Invalid data type for item or quantity. Could not add '%s'.'' [VInt 123] w0)"
proof -
  have h: "\<exists>cur. dict_get [(VStr ''apple'', VInt 10)] (VInt 123) (VInt 0) = Inr cur
          \<and> py_add cur (VStr ''ten'') = Inl TypeError"
    by (simp add: dict_get_def)
  from add_item_type_mismatch[OF disjI2, OF h, of None w0] h show ?thesis by simp
qed

subsection \<open>C5: loading a missing or malformed file\<close>

text \<open>
  C5: \<open>load_data\<close> on a path with no file returns the empty dict and emits a warning;
  on a file whose text the decoder rejects with \<open>JSONDecodeError\<close> it returns the empty
  dict and emits an error record (after the information record written on opening the
  file). Neither exception leaves the call.
\<close>

theorem load_data_failures:
  "(files w file = NoFile \<or> files w file = NoDir \<longrightarrow>
      load_data json_load file w =
        (Inr (VDict []),
         emit WARNING ''%s not found. Starting with an empty inventory.'' [VStr file] w))
   \<and> (files w file = Text s \<and> json_load s = Inl JSONDecodeError \<longrightarrow>
      load_data json_load file w =
        (Inr (VDict []),
         emit ERROR ''Failed to decode JSON from %s. Starting fresh.'' [VStr file]
           (emit INFO ''Inventory data loaded successfully from %s.'' [VStr file] w)))"
  by (auto simp: load_data_def)

theorem load_data_failures_witness:
  \<open>files w0 ''inventory.json'' = NoFile
   \<and> load_data (\<lambda>s. Inl JSONDecodeError) ''inventory.json'' w0 =
        (Inr (VDict []),
         emit WARNING ''%s not found. Starting with an empty inventory.'' [VStr ''inventory.json''] w0)
   \<and> files w_corrupt ''inventory.json'' = Text ''{"apple": ''
   \<and> load_data (\<lambda>s. Inl JSONDecodeError) ''inventory.json'' w_corrupt =
        (Inr (VDict []),
         emit ERROR ''Failed to decode JSON from %s. Starting fresh.'' [VStr ''inventory.json'']
           (emit INFO ''Inventory data loaded successfully from %s.'' [VStr ''inventory.json'']
              w_corrupt))\<close>
proof -
  have h1: "files w0 ''inventory.json'' = NoFile" by (simp add: w0_def)
  have h2: \<open>files w_corrupt ''inventory.json'' = Text ''{"apple": ''\<close>
    by (simp add: w_corrupt_def)
  from load_data_failures[of w0 "''inventory.json''" "\<lambda>s. Inl JSONDecodeError"]
    load_data_failures[of w_corrupt "''inventory.json''" "\<lambda>s. Inl JSONDecodeError" \<open>''{"apple": ''\<close>]
    h1 h2 show ?thesis by simp
qed

subsection \<open>C6: \<open>get_qty\<close>\<close>

text \<open>
  C6 as stated fails: \<open>get_qty\<close> has no handler, and the lookup of an unhashable item
  (here the empty list) raises \<open>TypeError\<close>.
\<close>

theorem get_qty_unhashable_counterexample:
  "fst (get_qty [(VStr ''apple'', VInt 7)] (VList []) w0) = Inl TypeError"
  by (simp add: get_qty_def dict_get_def)

text \<open>
  C6, amended: for every inventory and every hashable item, \<open>get_qty\<close> returns the
  stored quantity when the item is present and 0 when it is absent, and does not raise.
\<close>

theorem get_qty_hashable:
  assumes "wf_dict data" and "hashable item"
  shows "((item, v) \<in> set data \<longrightarrow> fst (get_qty data item w) = Inr v)
       \<and> (item \<notin> fst ` set data \<longrightarrow> fst (get_qty data item w) = Inr (VInt 0))"
  using assms by (auto simp: get_qty_def dict_get_def wf_dict_def map_of_eq_None_iff[symmetric])

theorem get_qty_hashable_witness:
  "wf_dict [(VStr ''apple'', VInt 7)] \<and> hashable (VStr ''apple'') \<and> hashable (VStr ''pear'')
   \<and> (VStr ''apple'', VInt 7) \<in> set [(VStr ''apple'', VInt 7)]
   \<and> fst (get_qty [(VStr ''apple'', VInt 7)] (VStr ''apple'') w0) = Inr (VInt 7)
   \<and> VStr ''pear'' \<notin> fst ` set [(VStr ''apple'', VInt 7)]
   \<and> fst (get_qty [(VStr ''apple'', VInt 7)] (VStr ''pear'') w0) = Inr (VInt 0)"
proof -
  have h1: "wf_dict [(VStr ''apple'', VInt 7)]" by (simp add: wf_dict_def)
  have h2: "hashable (VStr ''apple'')" "hashable (VStr ''pear'')" by simp_all
  from get_qty_hashable[OF h1 h2(1), of "VInt 7" w0] get_qty_hashable[OF h1 h2(2), of "VInt 7" w0]
    h1 h2 show ?thesis by simp
qed

subsection \<open>C7: \<open>check_low_items\<close>\<close>

text \<open>
  C7 as stated fails: \<open>check_low_items\<close> compares each quantity with the threshold
  by \<open>quantity < threshold\<close> outside any handler. An integer cannot be compared with
  \<open>None\<close> or with a string, so a threshold \<open>None\<close>, or a string quantity such as
  \<open>load_data\<close> can return, makes the call raise \<open>TypeError\<close>.
\<close>

theorem check_low_items_raises:
  "fst (check_low_items [(VStr ''apple'', VInt 1)] VNone w0) = Inl TypeError
   \<and> fst (check_low_items [(VStr ''apple'', VInt 1), (VStr ''pear'', VStr ''x'')] (VInt 5) w0)
       = Inl TypeError"
  by (simp add: check_low_items_def)

text \<open>
  C7, amended: on an inventory of integer quantities and an integer threshold,
  \<open>check_low_items\<close> returns, in the iteration order of the dict, exactly the items
  whose quantity is strictly below the threshold, and does not raise.
\<close>

theorem check_low_items_exact:
  "fst (check_low_items (map (\<lambda>(k, n). (k, VInt n)) kvs) (VInt t) w) =
     Inr (map fst (filter (\<lambda>(k, n). n < t) kvs))"
  by (simp add: check_low_items_def low_items_int)

subsection \<open>C8: threshold zero\<close>

text \<open>
  C8 as stated fails: after \<open>add_item\<close> of \<open>-1\<close> apples the stored quantity is
  negative and \<open>check_low_items\<close> with threshold 0 reports the item.
\<close>

theorem check_low_items_zero_counterexample:
  "fst (check_low_items (fst (snd (run [Add (VStr ''apple'') (VInt (- 1))] [] w0))) (VInt 0) w0)
     = Inr [VStr ''apple'']"
  by (simp add: add_item_def check_low_items_def dict_get_def dict_setitem_def)

text \<open>
  C8, amended: for every inventory reached from the empty one by \<open>add_item\<close> and
  \<open>remove_item\<close> calls whose quantities are all integers, those given to
  \<open>add_item\<close> strictly positive, \<open>check_low_items\<close> with threshold 0 returns the
  empty list.
\<close>

theorem check_low_items_zero_empty:
  assumes "list_all add_positive calls"
  shows "fst (check_low_items (fst (snd (run calls [] w))) (VInt 0) w') = Inr []"
  using run_positive[OF positive_Nil assms, of w] positive_low_items
  by (simp add: check_low_items_def)

theorem check_low_items_zero_empty_witness:
  "list_all add_positive [Add (VStr ''apple'') (VInt 10), Add (VStr ''banana'') (VInt 2)]
   \<and> fst (check_low_items
        (fst (snd (run [Add (VStr ''apple'') (VInt 10), Add (VStr ''banana'') (VInt 2)] [] w0)))
        (VInt 0) w0) = Inr []"
proof -
  have h: "list_all add_positive [Add (VStr ''apple'') (VInt 10), Add (VStr ''banana'') (VInt 2)]"
    by simp
  from check_low_items_zero_empty[OF h, of w0 w0] h show ?thesis by simp
qed

subsection \<open>C9: removing an absent item\<close>

text \<open>
  C9: when \<open>item in data\<close> is false, \<open>remove_item\<close> emits one warning record and
  returns with the dict unchanged, whatever the quantity.
\<close>

theorem remove_item_absent_noop:
  assumes "dict_contains data item = Inr False"
  shows "remove_item data item qty w =
           (Inr (), data,
            emit WARNING ''Attempted to remove an item that does not exist: %s'' [item] w)"
  using assms by (simp add: remove_item_def)

theorem remove_item_absent_noop_witness:
  "dict_contains [(VStr ''apple'', VInt 7)] (VStr ''orange'') = Inr False
   \<and> remove_item [(VStr ''apple'', VInt 7)] (VStr ''orange'') (VInt 1) w0 =
       (Inr (), [(VStr ''apple'', VInt 7)],
        emit WARNING ''Attempted to remove an item that does not exist: %s'' [VStr ''orange''] w0)"
proof -
  have h: "dict_contains [(VStr ''apple'', VInt 7)] (VStr ''orange'') = Inr False"
    by (simp add: dict_contains_def)
  from remove_item_absent_noop[OF h, of "VInt 1" w0] h show ?thesis by simp
qed

subsection \<open>C10: the queries do not change the inventory\<close>

text \<open>
  C10: \<open>get_qty\<close>, \<open>check_low_items\<close> and \<open>print_data\<close> leave the dict as it was,
  for every dict and every argument, also when they raise.
\<close>

theorem queries_leave_inventory:
  "fst (snd (get_qty data item w)) = data
   \<and> fst (snd (check_low_items data threshold w)) = data
   \<and> fst (snd (print_data data w)) = data"
  by (simp add: get_qty_def check_low_items_def print_data_def Let_def)

end
